theory Spec2Isabelle
  imports Complex_Main
begin

section \<open>The metering core of the VU meter component\<close>

text \<open>
  The component file (\<^verbatim>\<open>src/unnamed/part_000\<close>) holds the class \<^verbatim>\<open>VUBallistics\<close> and, inside
  the effect of \<^verbatim>\<open>Meter\<close>, the per-frame callback \<^verbatim>\<open>animate\<close>. JavaScript numbers are
  modelled as real numbers: rounding of IEEE doubles is not part of the model, and the two
  places where the source can leave the reals (\<^verbatim>\<open>0 / 0\<close> on an empty buffer, a division by a
  zero fade time) are written out where they occur.
\<close>

subsection \<open>Ballistics\<close>

text \<open>
  \<^verbatim>\<open>private attackTime = 0.3\<close>, \<^verbatim>\<open>private releaseTime = 0.3\<close>: both are initialised once and never
  assigned, so they are constants. The only mutable field is \<^verbatim>\<open>level\<close>, initially 0.
\<close>

definition attackTime :: real where
  "attackTime = 0.3"

definition releaseTime :: real where
  "releaseTime = 0.3"

record VUBallistics =
  level :: real

definition new_VUBallistics :: VUBallistics where
  "new_VUBallistics = \<lparr>level = 0\<rparr>"

definition attackCoeff :: "real \<Rightarrow> real" where
  "attackCoeff deltaTime = 1 - exp (- deltaTime / attackTime)"

definition releaseCoeff :: "real \<Rightarrow> real" where
  "releaseCoeff deltaTime = 1 - exp (- deltaTime / releaseTime)"

text \<open>\<^verbatim>\<open>process(inputLevel, deltaTime)\<close>: returns the updated object and the returned number.\<close>

definition process :: "VUBallistics \<Rightarrow> real \<Rightarrow> real \<Rightarrow> VUBallistics \<times> real" where
  "process b inputLevel deltaTime =
     (let b' = (if inputLevel > level b
                then b\<lparr>level := level b + (inputLevel - level b) * attackCoeff deltaTime\<rparr>
                else b\<lparr>level := level b + (inputLevel - level b) * releaseCoeff deltaTime\<rparr>)
      in (b', level b'))"

subsection \<open>Level estimate\<close>

text \<open>
  The loop \<^verbatim>\<open>for (let i = 0; i < bufferLength; i++) sumOfSquares += dataArray[i] * dataArray[i]\<close>
  over the buffer of \<^verbatim>\<open>bufferLength = fftSize\<close> samples.
\<close>

function sumOfSquares_loop :: "real list \<Rightarrow> nat \<Rightarrow> real \<Rightarrow> real" where
  "sumOfSquares_loop dataArray i sumOfSquares =
     (if i < length dataArray
      then sumOfSquares_loop dataArray (i + 1) (sumOfSquares + dataArray ! i * dataArray ! i)
      else sumOfSquares)"
  by pat_completeness auto
termination
  by (relation "measure (\<lambda>(dataArray, i, s). length dataArray - i)") auto

declare sumOfSquares_loop.simps [simp del]

text \<open>
  \<^verbatim>\<open>rms = Math.sqrt(sumOfSquares / bufferLength)\<close> and
  \<^verbatim>\<open>dbFS = 20 * Math.log10(Math.max(rms, 0.00001))\<close>. On an empty buffer the quotient is
  \<^verbatim>\<open>0 / 0 = NaN\<close>, which \<^verbatim>\<open>sqrt\<close>, \<^verbatim>\<open>max\<close> and \<^verbatim>\<open>log10\<close> hand on: the result \<open>None\<close> stands
  for \<^verbatim>\<open>NaN\<close>. (The effect sets \<^verbatim>\<open>fftSize\<close> to at least 32, so the loop never sees one.)
\<close>

definition rms_of :: "real list \<Rightarrow> real" where
  "rms_of dataArray = sqrt (sumOfSquares_loop dataArray 0 0 / real (length dataArray))"

definition levelEstimate :: "real list \<Rightarrow> real option" where
  "levelEstimate dataArray =
     (if length dataArray = 0 then None
      else Some (20 * log 10 (max (rms_of dataArray) 0.00001)))"

datatype Channel = Left | Right | Mono

text \<open>\<^verbatim>\<open>if (channel === "mono" && sourceChannelsRef.current === 2) dbFS += 3.8\<close>\<close>

definition monoCorrection :: "Channel \<Rightarrow> nat \<Rightarrow> real \<Rightarrow> real" where
  "monoCorrection channel sourceChannels dbFS =
     (if channel = Mono \<and> sourceChannels = 2 then dbFS + 3.8 else dbFS)"

subsection \<open>Calibration ladder\<close>

text \<open>
  The ladder of \<^verbatim>\<open>animate\<close> that assigns \<^verbatim>\<open>angle\<close> from \<^verbatim>\<open>vuValue\<close>, branch by branch in the
  source's order: the outer clamp first, then the inner ladder, whose first and last
  branches the outer clamp has already taken.
\<close>

definition toAngle :: "real \<Rightarrow> real" where
  "toAngle vuValue =
     (if vuValue \<le> -20 then -25
      else if vuValue \<ge> 3 then 25
      else (if vuValue \<le> -20 then -23
            else if vuValue \<le> -10 then -23 + ((vuValue + 20) / 10) * 7
            else if vuValue \<le> -7 then -16 + ((vuValue + 10) / 3) * 4
            else if vuValue \<le> -5 then -12 + ((vuValue + 7) / 2) * 4
            else if vuValue \<le> -3 then -8 + ((vuValue + 5) / 2) * 5
            else if vuValue \<le> -2 then -3 + ((vuValue + 3) / 1) * 3
            else if vuValue \<le> -1 then 0 + ((vuValue + 2) / 1) * 3.5
            else if vuValue \<le> 0 then 3.5 + ((vuValue + 1) / 1) * 4.5
            else if vuValue \<le> 1 then 8 + (vuValue / 1) * 5
            else if vuValue \<le> 2 then 13 + ((vuValue - 1) / 1) * 5
            else if vuValue \<le> 3 then 18 + ((vuValue - 2) / 1) * 7
            else 25))"

text \<open>
  With \<^verbatim>\<open>vuValue = NaN\<close> every comparison of the ladder is false and the last \<^verbatim>\<open>else\<close> is
  taken.
\<close>

definition angleOf :: "real option \<Rightarrow> real" where
  "angleOf vuValue = (case vuValue of None \<Rightarrow> 25 | Some v \<Rightarrow> toAngle v)"

subsection \<open>Configuration and state of one meter\<close>

text \<open>
  The props and options read by the effect; \<^verbatim>\<open>Meter\<close> defaults \<^verbatim>\<open>channel\<close> to mono and
  \<^verbatim>\<open>referenceLevel\<close> to -20, and the effect defaults the three lamp options with \<^verbatim>\<open>??\<close>.
\<close>

record MeterConfig =
  channel :: Channel
  referenceLevel :: real
  peakHoldMs :: real
  peakFadeMs :: real
  clipThresholdDeg :: real

definition defaultConfig :: MeterConfig where
  "defaultConfig =
     \<lparr>channel = Mono, referenceLevel = -20, peakHoldMs = 1000, peakFadeMs = 5000,
      clipThresholdDeg = 23\<rparr>"

text \<open>
  The refs the loop reads and writes: \<^verbatim>\<open>lastTimeRef\<close> (initially 0),
  \<^verbatim>\<open>lastClipTimeMsRef\<close> (initially \<^verbatim>\<open>null\<close>), \<^verbatim>\<open>sourceChannelsRef\<close> (initially 1) and the
  ballistics object.
\<close>

record MeterState =
  lastTime :: real
  lastClipTimeMs :: "real option"
  sourceChannels :: nat
  ballistics :: VUBallistics

definition initialState :: MeterState where
  "initialState =
     \<lparr>lastTime = 0, lastClipTimeMs = None, sourceChannels = 1, ballistics = new_VUBallistics\<rparr>"

text \<open>
  The part of the effect that runs before the loop starts: a new ballistics object, and for
  the mono channel \<^verbatim>\<open>sourceChannelsRef.current = sourceNode.channelCount || 1\<close>. The other refs
  keep their values.
\<close>

definition startEffect :: "MeterConfig \<Rightarrow> nat \<Rightarrow> MeterState \<Rightarrow> MeterState" where
  "startEffect cfg channelCount st =
     (let st1 = st\<lparr>ballistics := new_VUBallistics\<rparr>
      in if channel cfg \<noteq> Mono then st1
         else st1\<lparr>sourceChannels := (if channelCount = 0 then 1 else channelCount)\<rparr>)"

text \<open>The three values the loop hands to React on each frame.\<close>

record Emitted =
  needleRotation :: real
  peakLampActive :: bool
  peakLampIntensity :: real

subsection \<open>One frame\<close>

text \<open>
  \<^verbatim>\<open>if (!lastTimeRef.current) lastTimeRef.current = currentTime\<close>, then
  \<^verbatim>\<open>deltaTime = (currentTime - lastTimeRef.current) / 1000\<close>.
\<close>

definition deltaTimeOf :: "MeterState \<Rightarrow> real \<Rightarrow> real" where
  "deltaTimeOf st currentTime =
     (let lastTime1 = (if lastTime st = 0 then currentTime else lastTime st)
      in (currentTime - lastTime1) / 1000)"

text \<open>The value of \<^verbatim>\<open>dbFS\<close> after the mono correction, and \<^verbatim>\<open>vuValue = dbFS - referenceLevel\<close>.\<close>

definition dbFSOf :: "MeterConfig \<Rightarrow> MeterState \<Rightarrow> real list \<Rightarrow> real option" where
  "dbFSOf cfg st dataArray =
     (case levelEstimate dataArray of
        None \<Rightarrow> None
      | Some dbFS \<Rightarrow> Some (monoCorrection (channel cfg) (sourceChannels st) dbFS))"

definition vuValueOf :: "MeterConfig \<Rightarrow> MeterState \<Rightarrow> real list \<Rightarrow> real option" where
  "vuValueOf cfg st dataArray =
     (case dbFSOf cfg st dataArray of
        None \<Rightarrow> None
      | Some dbFS \<Rightarrow> Some (dbFS - referenceLevel cfg))"

definition normalizedLevelOf :: "MeterConfig \<Rightarrow> MeterState \<Rightarrow> real list \<Rightarrow> real" where
  "normalizedLevelOf cfg st dataArray = (angleOf (vuValueOf cfg st dataArray) + 25) / 50"

text \<open>
  The lamp intensity from the clip time. In the fade branch \<^verbatim>\<open>msSinceLastClip - peakHoldMs\<close> is
  positive, so with \<^verbatim>\<open>peakFadeMs = 0\<close> the quotient is \<^verbatim>\<open>+Infinity\<close> and \<^verbatim>\<open>Math.min\<close> gives 1
  (the reals have no negative zero, for which the quotient would be \<^verbatim>\<open>-Infinity\<close>; no
  property below is stated for a zero fade time alone).
\<close>

definition lampIntensity :: "MeterConfig \<Rightarrow> real option \<Rightarrow> real \<Rightarrow> real" where
  "lampIntensity cfg lastClip currentTime =
     (case lastClip of
        None \<Rightarrow> 0
      | Some clipTime \<Rightarrow>
          (let msSinceLastClip = currentTime - clipTime
           in if msSinceLastClip \<le> peakHoldMs cfg then 1
              else (let t = (if peakFadeMs cfg = 0 then 1
                             else min 1 ((msSinceLastClip - peakHoldMs cfg) / peakFadeMs cfg))
                    in 1 - t)))"

text \<open>The snap-off: what is passed to \<^verbatim>\<open>setPeakLampActive\<close> and \<^verbatim>\<open>setPeakLampIntensity\<close>.\<close>

definition snapOff :: "real \<Rightarrow> bool \<times> real" where
  "snapOff intensity = (if intensity \<le> 0.001 then (False, 0) else (True, intensity))"

text \<open>
  \<^verbatim>\<open>animate(currentTime)\<close> with the buffer that \<^verbatim>\<open>getFloatTimeDomainData\<close> fills on this frame.
  Both refs tested by \<^verbatim>\<open>if (analyserRef.current && vuBallisticsRef.current)\<close> are set by the
  effect before the first frame is requested.
\<close>

definition animate ::
  "MeterConfig \<Rightarrow> MeterState \<Rightarrow> real \<Rightarrow> real list \<Rightarrow> MeterState \<times> Emitted" where
  "animate cfg st currentTime dataArray =
     (let deltaTime = deltaTimeOf st currentTime;
          normalizedLevel = normalizedLevelOf cfg st dataArray;
          (b', smoothedLevel) = process (ballistics st) normalizedLevel deltaTime;
          directRotation = smoothedLevel * 50 - 25;
          lastClip' = (if directRotation \<ge> clipThresholdDeg cfg then Some currentTime
                       else lastClipTimeMs st);
          intensity = lampIntensity cfg lastClip' currentTime;
          (active, shown) = snapOff intensity
      in (st\<lparr>lastTime := currentTime, lastClipTimeMs := lastClip', ballistics := b'\<rparr>,
          \<lparr>needleRotation = directRotation, peakLampActive = active,
           peakLampIntensity = shown\<rparr>))"

text \<open>
  A run of frames: the callback is invoked once per animation frame with that frame's time
  and buffer, each frame starting from the refs the previous one left.
\<close>

fun run ::
  "MeterConfig \<Rightarrow> MeterState \<Rightarrow> (real \<times> real list) list \<Rightarrow> MeterState \<times> Emitted list" where
  "run cfg st [] = (st, [])"
| "run cfg st ((currentTime, dataArray) # frames) =
     (let (st', e) = animate cfg st currentTime dataArray;
          (st'', es) = run cfg st' frames
      in (st'', e # es))"

subsection \<open>The level estimate as the specification words it\<close>

text \<open>
  \<open>rms = sqrt (mean (sample\<^sub>i\<^sup>2))\<close> and \<open>dBFS = 20 * log10 (max rms 1e-5)\<close>, written with the
  list sum rather than the loop, to be compared with \<^const>\<open>levelEstimate\<close>.
\<close>

definition spec_rms :: "real list \<Rightarrow> real" where
  "spec_rms window = sqrt ((\<Sum>s\<leftarrow>window. s\<^sup>2) / real (length window))"

definition spec_dBFS :: "real list \<Rightarrow> real" where
  "spec_dBFS window = 20 * log 10 (max (spec_rms window) 0.00001)"

subsection \<open>The lamp intensity as the specification words it\<close>

text \<open>
  \<open>intensity = 0\<close> without a recorded clip, \<open>1\<close> while \<open>msSinceLastClip \<le> peakHoldMs\<close>, and
  \<open>1 - clamp ((msSinceLastClip - peakHoldMs) / peakFadeMs, 0, 1)\<close> afterwards, to be compared
  with \<^const>\<open>lampIntensity\<close>.
\<close>

definition clamp :: "real \<Rightarrow> real \<Rightarrow> real \<Rightarrow> real" where
  "clamp x lo hi = max lo (min hi x)"

definition spec_intensity :: "real \<Rightarrow> real \<Rightarrow> real option \<Rightarrow> real \<Rightarrow> real" where
  "spec_intensity hold fade lastClip now =
     (case lastClip of
        None \<Rightarrow> 0
      | Some lastClipTime \<Rightarrow>
          (let msSinceLastClip = now - lastClipTime
           in if msSinceLastClip \<le> hold then 1
              else 1 - clamp ((msSinceLastClip - hold) / fade) 0 1))"

subsection \<open>An example state\<close>

text \<open>
  A meter two seconds into the fade of a clip recorded at time 0, with the needle at full
  deflection: the state used to exercise a second clip during the fade.
\<close>

definition fadingState :: MeterState where
  "fadingState = \<lparr>lastTime = 2984, lastClipTimeMs = Some 0, sourceChannels = 1,
                   ballistics = \<lparr>level = 1\<rparr>\<rparr>"

text \<open>
  Buffers of the smallest size the analyser can have (\<^verbatim>\<open>fftSize = 32\<close>): full scale and silence.
\<close>

definition loudBuffer :: "real list" where
  "loudBuffer = replicate 32 1"

definition silentBuffer :: "real list" where
  "silentBuffer = replicate 32 0"

text \<open>
  A meter 1484 ms after a clip recorded at time 0 whose effect has just been started again:
  the new ballistics object is at level 0, the refs are kept.
\<close>

definition restartedState :: MeterState where
  "restartedState = \<lparr>lastTime = 1484, lastClipTimeMs = Some 0, sourceChannels = 1,
                      ballistics = new_VUBallistics\<rparr>"

text \<open>
  Options the type \<^verbatim>\<open>number\<close> admits and the effect takes as they are: a negative fade time
  and a negative hold time.
\<close>

definition negativeFadeConfig :: MeterConfig where
  "negativeFadeConfig = defaultConfig\<lparr>peakFadeMs := -5000\<rparr>"

definition negativeHoldConfig :: MeterConfig where
  "negativeHoldConfig = defaultConfig\<lparr>peakHoldMs := -100\<rparr>"

section \<open>Properties\<close>

subsection \<open>Ballistics\<close>

lemma process_level:
  "level (fst (process b x dt)) = level b + (x - level b) * (1 - exp (- dt / 0.3))"
  by (simp add: process_def attackCoeff_def releaseCoeff_def attackTime_def releaseTime_def Let_def)

lemma process_snd: "snd (process b x dt) = level (fst (process b x dt))"
  by (simp add: process_def Let_def)

text \<open>
  C5. \<^verbatim>\<open>process(inputLevel, deltaTime)\<close> moves the level to
  \<open>level + (inputLevel - level) * (1 - exp (- deltaTime / 0.3))\<close> whichever branch is taken,
  the attack and release coefficients being equal; it returns the new level, and with
  \<open>deltaTime = 0\<close> the object and the returned value are the old level.
\<close>

theorem process_update:
  "level (fst (process b inputLevel deltaTime))
     = level b + (inputLevel - level b) * (1 - exp (- deltaTime / 0.3))
   \<and> snd (process b inputLevel deltaTime) = level (fst (process b inputLevel deltaTime))
   \<and> attackCoeff deltaTime = 1 - exp (- deltaTime / 0.3)
   \<and> releaseCoeff deltaTime = attackCoeff deltaTime
   \<and> process b inputLevel 0 = (b, level b)"
  by (simp add: process_def attackCoeff_def releaseCoeff_def attackTime_def releaseTime_def Let_def)

subsection \<open>Level estimate\<close>

lemma sumOfSquares_loop_sum:
  "sumOfSquares_loop xs i acc = acc + (\<Sum>k = i..<length xs. xs ! k * xs ! k)"
proof (induction xs i acc rule: sumOfSquares_loop.induct)
  case (1 xs i acc)
  show ?case
  proof (cases "i < length xs")
    case True
    then have "sumOfSquares_loop xs i acc = sumOfSquares_loop xs (i + 1) (acc + xs ! i * xs ! i)"
      by (subst sumOfSquares_loop.simps) simp
    also have "\<dots> = acc + xs ! i * xs ! i + (\<Sum>k = i + 1..<length xs. xs ! k * xs ! k)"
      using "1" True by simp
    also have "\<dots> = acc + (\<Sum>k = i..<length xs. xs ! k * xs ! k)"
      using True by (simp add: sum.atLeast_Suc_lessThan)
    finally show ?thesis .
  next
    case False
    then show ?thesis by (subst sumOfSquares_loop.simps) simp
  qed
qed

lemma sumOfSquares_loop_sum_list:
  "sumOfSquares_loop xs 0 0 = (\<Sum>s\<leftarrow>xs. s\<^sup>2)"
proof -
  have "(\<Sum>s\<leftarrow>xs. s\<^sup>2) = (\<Sum>k = 0..<length xs. (xs ! k)\<^sup>2)"
    by (simp add: sum_list_sum_nth)
  then show ?thesis
    by (simp add: sumOfSquares_loop_sum power2_eq_square)
qed

lemma rms_of_spec: "rms_of xs = spec_rms xs"
  by (simp add: rms_of_def spec_rms_def sumOfSquares_loop_sum_list)

lemma log10_floor: "log 10 (1 / 100000) = (-5::real)"
proof -
  have "log 10 (100000::real) = log 10 (10 ^ 5)" by simp
  also have "\<dots> = 5" by (subst log_pow_cancel) simp_all
  finally show ?thesis by (simp add: log_recip)
qed

lemma spec_dBFS_lower: "-100 \<le> spec_dBFS w"
proof -
  have "log 10 (1 / 100000) \<le> log 10 (max (spec_rms w) (1 / 100000))"
    by (subst log_le_cancel_iff) simp_all
  then show ?thesis by (simp add: spec_dBFS_def log10_floor)
qed

lemma silence_sum: "\<forall>s\<in>set xs. s = 0 \<Longrightarrow> (\<Sum>s\<leftarrow>xs. s\<^sup>2) = (0::real)"
  by (induction xs) simp_all

text \<open>
  C3. On a non-empty buffer the level estimate, before the mono correction, is
  \<open>20 * log10 (max (sqrt (mean (sample\<^sub>i\<^sup>2))) 1e-5)\<close>. It is a number: the argument of the
  logarithm is positive, so the estimate is never below -100. On a buffer of zeros it is
  exactly \<open>20 * log10 1e-5\<close>, which is -100.
\<close>

theorem levelEstimate_spec:
  assumes "dataArray \<noteq> []"
  shows "levelEstimate dataArray = Some (spec_dBFS dataArray)
       \<and> 0 < max (spec_rms dataArray) 0.00001
       \<and> -100 \<le> spec_dBFS dataArray
       \<and> ((\<forall>s\<in>set dataArray. s = 0) \<longrightarrow>
            levelEstimate dataArray = Some (20 * log 10 0.00001)
            \<and> levelEstimate dataArray = Some (-100))"
proof -
  have est: "levelEstimate dataArray = Some (spec_dBFS dataArray)"
    using assms by (simp add: levelEstimate_def spec_dBFS_def rms_of_spec)
  have sil: "spec_dBFS dataArray = 20 * log 10 0.00001" if "\<forall>s\<in>set dataArray. s = 0"
    using that by (simp add: spec_dBFS_def spec_rms_def silence_sum)
  show ?thesis
    using est sil spec_dBFS_lower [of dataArray] by (simp add: log10_floor)
qed

theorem levelEstimate_spec_witness:
  "[0, 0, 0, 0] \<noteq> ([]::real list) \<and> set [0, 0, 0, 0] = {0::real}
   \<and> levelEstimate [0, 0, 0, 0] = Some (-100)
   \<and> levelEstimate [1, -1] = Some 0"
  using levelEstimate_spec [of "[0, 0, 0, 0]"] levelEstimate_spec [of "[1, -1]"]
  by (simp add: spec_dBFS_def spec_rms_def log10_floor)

subsection \<open>Calibration\<close>

lemma toAngle_flat: "toAngle v =
     (if v \<le> -20 then -25
      else if v \<le> -10 then -23 + (v + 20) * 7 / 10
      else if v \<le> -7 then -16 + (v + 10) * 4 / 3
      else if v \<le> -5 then -12 + (v + 7) * 2
      else if v \<le> -3 then -8 + (v + 5) * 5 / 2
      else if v \<le> -2 then -3 + (v + 3) * 3
      else if v \<le> -1 then (v + 2) * 7 / 2
      else if v \<le> 0 then 7 / 2 + (v + 1) * 9 / 2
      else if v \<le> 1 then 8 + v * 5
      else if v \<le> 2 then 13 + (v - 1) * 5
      else if v < 3 then 18 + (v - 2) * 7
      else 25)"
  by (simp add: toAngle_def)

lemma toAngle_nondecreasing: "u \<le> v \<Longrightarrow> toAngle u \<le> toAngle v"
  unfolding toAngle_flat by (simp split: if_splits; intro conjI impI; argo)

lemma toAngle_range: "-25 \<le> toAngle v \<and> toAngle v \<le> 25"
  unfolding toAngle_flat by (simp split: if_splits; intro conjI impI; argo)

lemma angleOf_range: "-25 \<le> angleOf x \<and> angleOf x \<le> 25"
  using toAngle_range by (cases x) (simp_all add: angleOf_def)

lemma normalizedLevelOf_range:
  "0 \<le> normalizedLevelOf cfg st w \<and> normalizedLevelOf cfg st w \<le> 1"
  using angleOf_range [of "vuValueOf cfg st w"] by (simp add: normalizedLevelOf_def)

lemma log10_hundredth: "log 10 (1 / 100) = (-2::real)"
proof -
  have "log 10 (100::real) = log 10 (10 ^ 2)" by simp
  also have "\<dots> = 2" by (subst log_pow_cancel) simp_all
  finally show ?thesis by (simp add: log_recip)
qed

lemma rms_of_hundredth: "rms_of [1 / 100] = 1 / 100"
proof -
  have "sqrt ((1 / 100)\<^sup>2) = (1 / 100 :: real)"
    by (subst real_sqrt_abs) simp
  then show ?thesis
    by (simp add: rms_of_def sumOfSquares_loop_sum_list)
qed

lemma levelEstimate_hundredth: "levelEstimate [1 / 100] = Some (-40)"
  by (simp add: levelEstimate_def rms_of_hundredth log10_hundredth)

text \<open>
  C1, at \<open>vuValue = -20\<close>. The outer clamp compares with \<^verbatim>\<open><=\<close>, so the value -20 itself is
  sent to -25 degrees and the inner branch that assigns -23 is never reached, although the
  scale drawn by the same component puts the -20 mark at -23 degrees. A left-channel meter
  with reference level -20 on a buffer of RMS 0.01 (-40 dBFS) has exactly this \<open>vuValue\<close>.
\<close>

theorem toAngle_at_minus20:
  "toAngle (-20) = -25 \<and> toAngle (-20) \<noteq> -23
   \<and> vuValueOf (defaultConfig\<lparr>channel := Left\<rparr>) initialState [0.01] = Some (-20)
   \<and> angleOf (vuValueOf (defaultConfig\<lparr>channel := Left\<rparr>) initialState [0.01]) = -25"
  by (simp add: toAngle_def angleOf_def vuValueOf_def dbFSOf_def levelEstimate_hundredth
      monoCorrection_def defaultConfig_def)

text \<open>
  The other values and clamps of the calibration, and the segment just above -20, where the
  angle starts from -23.
\<close>

lemma toAngle_other_anchors:
  "toAngle 0 = 8" "toAngle 3 = 25" "toAngle (-25) = -25" "toAngle 10 = 25"
  "v < -20 \<Longrightarrow> toAngle v = -25" "3 \<le> v \<Longrightarrow> toAngle v = 25"
  by (simp_all add: toAngle_def)

lemma toAngle_above_minus20: "-20 < v \<Longrightarrow> v \<le> -10 \<Longrightarrow> toAngle v = -23 + (v + 20) * 7 / 10"
  by (simp add: toAngle_def)

text \<open>
  C2. The calibration is non-decreasing on \<open>[-25, 3]\<close> and constant outside: -25 below -25
  and 25 above 3.
\<close>

theorem toAngle_monotone:
  "(-25 \<le> u \<and> u \<le> v \<and> v \<le> 3 \<longrightarrow> toAngle u \<le> toAngle v)
   \<and> (w < -25 \<longrightarrow> toAngle w = -25)
   \<and> (3 < w \<longrightarrow> toAngle w = 25)"
  using toAngle_nondecreasing [of u v] by (simp add: toAngle_def)

theorem toAngle_monotone_witness:
  "(-25::real) \<le> -10 \<and> (-10::real) \<le> 0 \<and> (0::real) \<le> 3 \<and> toAngle (-10) \<le> toAngle 0
   \<and> (-30::real) < -25 \<and> toAngle (-30) = -25
   \<and> (3::real) < 10 \<and> toAngle 10 = 25"
  using toAngle_monotone [of "-10" 0 "-30"] toAngle_monotone [of "-10" 0 10] by simp

lemma process_range:
  assumes "0 \<le> level b" "level b \<le> 1" "0 \<le> x" "x \<le> 1" "0 \<le> dt"
  shows "0 \<le> level (fst (process b x dt)) \<and> level (fst (process b x dt)) \<le> 1"
proof -
  define c where "c = 1 - exp (- dt / 0.3)"
  have "exp (- dt / 0.3) \<le> 1" using assms(5) by simp
  then have c0: "0 \<le> c" by (simp add: c_def)
  have c1: "c \<le> 1" by (simp add: c_def)
  have eq: "level (fst (process b x dt)) = (1 - c) * level b + c * x"
    by (simp add: process_level c_def algebra_simps)
  have lo: "0 \<le> (1 - c) * level b + c * x"
    using c0 c1 assms by simp
  have "(1 - c) * level b \<le> (1 - c) * 1"
    by (rule mult_left_mono) (use c1 assms in simp_all)
  moreover have "c * x \<le> c * 1"
    by (rule mult_left_mono) (use c0 assms in simp_all)
  ultimately have hi: "(1 - c) * level b + c * x \<le> 1" by simp
  show ?thesis using eq lo hi by simp
qed

subsection \<open>Mono correction and lamp intensity\<close>

lemma levelEstimate_one: "levelEstimate [1] = Some 0"
  by (simp add: levelEstimate_def rms_of_def sumOfSquares_loop_sum_list)

lemma levelEstimate_zero: "levelEstimate [0] = Some (-100)"
  by (simp add: levelEstimate_def rms_of_def sumOfSquares_loop_sum_list log10_floor)

text \<open>
  C4. With the mono channel and two source channels the frame adds 3.8 to the estimated
  dBFS; in every other configuration it adds nothing. The effect records the channel count
  of a two-channel source as 2 when the channel is mono.
\<close>

theorem mono_correction:
  assumes "levelEstimate dataArray = Some d"
  shows "(channel cfg = Mono \<and> sourceChannels st = 2 \<longrightarrow> dbFSOf cfg st dataArray = Some (d + 3.8))
       \<and> (\<not> (channel cfg = Mono \<and> sourceChannels st = 2) \<longrightarrow> dbFSOf cfg st dataArray = Some d)
       \<and> (channel cfg = Mono \<longrightarrow> sourceChannels (startEffect cfg 2 st) = 2)"
  using assms by (simp add: dbFSOf_def monoCorrection_def startEffect_def)

theorem mono_correction_witness:
  "levelEstimate [1] = Some 0
   \<and> dbFSOf defaultConfig (startEffect defaultConfig 2 initialState) [1] = Some 3.8
   \<and> dbFSOf defaultConfig (startEffect defaultConfig 1 initialState) [1] = Some 0
   \<and> dbFSOf (defaultConfig\<lparr>channel := Left\<rparr>) (initialState\<lparr>sourceChannels := 2\<rparr>) [1] = Some 0
   \<and> sourceChannels (startEffect defaultConfig 2 initialState) = 2"
  using mono_correction [OF levelEstimate_one, of defaultConfig "startEffect defaultConfig 2 initialState"]
    mono_correction [OF levelEstimate_one, of defaultConfig "startEffect defaultConfig 1 initialState"]
    mono_correction [OF levelEstimate_one, of "defaultConfig\<lparr>channel := Left\<rparr>" "initialState\<lparr>sourceChannels := 2\<rparr>"]
    mono_correction [OF levelEstimate_one, of defaultConfig initialState]
  by (simp add: levelEstimate_one defaultConfig_def startEffect_def initialState_def)

lemma lampIntensity_spec:
  "0 < peakFadeMs cfg \<Longrightarrow>
   lampIntensity cfg lastClip now = spec_intensity (peakHoldMs cfg) (peakFadeMs cfg) lastClip now"
  by (cases lastClip) (auto simp: lampIntensity_def spec_intensity_def clamp_def Let_def max_def)

lemma lampIntensity_default_hold:
  "0 \<le> t \<Longrightarrow> t \<le> 1000 \<Longrightarrow> lampIntensity defaultConfig (Some 0) t = 1"
  by (simp add: lampIntensity_def defaultConfig_def)

lemma lampIntensity_default_fade:
  "1000 < t \<Longrightarrow> t \<le> 6000 \<Longrightarrow> lampIntensity defaultConfig (Some 0) t = 1 - (t - 1000) / 5000"
  by (simp add: lampIntensity_def defaultConfig_def)

lemma lampIntensity_none: "lampIntensity cfg None now = 0"
  by (simp add: lampIntensity_def)

lemma lampIntensity_fade_branch:
  "peakFadeMs cfg \<noteq> 0 \<Longrightarrow> peakHoldMs cfg < now - clipTime \<Longrightarrow>
   lampIntensity cfg (Some clipTime) now
     = 1 - min 1 ((now - clipTime - peakHoldMs cfg) / peakFadeMs cfg)"
  by (simp add: lampIntensity_def Let_def)

text \<open>
  C6, as stated, fails for a negative fade time: the fade branch takes only the minimum with
  1, so with \<open>peakFadeMs = -5000\<close> the intensity 1500 ms after a clip is 1.1, where the
  clamped formula gives 1.
\<close>

theorem fade_formula_fails_negative_fade:
  "lampIntensity negativeFadeConfig (Some 0) 1500 = 11 / 10
   \<and> spec_intensity (peakHoldMs negativeFadeConfig) (peakFadeMs negativeFadeConfig) (Some 0) 1500 = 1
   \<and> lampIntensity negativeFadeConfig (Some 0) 1500
      \<noteq> spec_intensity (peakHoldMs negativeFadeConfig) (peakFadeMs negativeFadeConfig) (Some 0) 1500"
  by (simp add: lampIntensity_def spec_intensity_def clamp_def negativeFadeConfig_def
      defaultConfig_def)

text \<open>
  C6, as the code has it. The lamp intensity is 0 while no clip is recorded and 1 while
  \<open>msSinceLastClip \<le> peakHoldMs\<close>; afterwards, for a fade time other than 0, it is
  \<open>1 - min 1 ((msSinceLastClip - peakHoldMs) / peakFadeMs)\<close>, which for a positive fade time
  is the specification's clamped hold-then-linear-fade value. With the default 1000 ms hold
  and 5000 ms fade a clip at time 0 gives intensity 1 on \<open>[0, 1000]\<close> and a strictly
  decreasing intensity on \<open>(1000, 6000]\<close>; an intensity of at most 0.001 is reported as
  inactive, which is the case from 6000 ms on.
\<close>

theorem peak_intensity:
  "lampIntensity cfg None now = 0
   \<and> (now - clipTime \<le> peakHoldMs cfg \<longrightarrow> lampIntensity cfg (Some clipTime) now = 1)
   \<and> (peakFadeMs cfg \<noteq> 0 \<and> peakHoldMs cfg < now - clipTime \<longrightarrow>
        lampIntensity cfg (Some clipTime) now
          = 1 - min 1 ((now - clipTime - peakHoldMs cfg) / peakFadeMs cfg))
   \<and> (0 < peakFadeMs cfg \<longrightarrow>
        lampIntensity cfg lastClip now
          = spec_intensity (peakHoldMs cfg) (peakFadeMs cfg) lastClip now)
   \<and> (0 \<le> t \<and> t \<le> 1000 \<longrightarrow> lampIntensity defaultConfig (Some 0) t = 1)
   \<and> (1000 < t \<and> t < t' \<and> t' \<le> 6000 \<longrightarrow>
        lampIntensity defaultConfig (Some 0) t' < lampIntensity defaultConfig (Some 0) t)
   \<and> (lampIntensity cfg lastClip now \<le> 0.001 \<longrightarrow>
        snapOff (lampIntensity cfg lastClip now) = (False, 0))
   \<and> (6000 \<le> t \<longrightarrow> snapOff (lampIntensity defaultConfig (Some 0) t) = (False, 0))"
proof -
  have dec: "lampIntensity defaultConfig (Some 0) t' < lampIntensity defaultConfig (Some 0) t"
    if "1000 < t" "t < t'" "t' \<le> 6000"
    using that by (simp add: lampIntensity_default_fade)
  have off: "snapOff (lampIntensity defaultConfig (Some 0) t) = (False, 0)" if "6000 \<le> t"
    using that by (simp add: lampIntensity_def defaultConfig_def snapOff_def)
  have hold: "lampIntensity cfg (Some clipTime) now = 1" if "now - clipTime \<le> peakHoldMs cfg"
    using that by (simp add: lampIntensity_def)
  show ?thesis
    using dec off hold lampIntensity_spec [of cfg lastClip now] lampIntensity_default_hold [of t]
      lampIntensity_fade_branch [of cfg now clipTime]
    by (simp add: lampIntensity_none snapOff_def)
qed

theorem peak_intensity_witness:
  "0 < peakFadeMs defaultConfig
   \<and> lampIntensity defaultConfig (Some 0) 3000 = 1 - clamp ((3000 - 1000) / 5000) 0 1
   \<and> lampIntensity defaultConfig (Some 0) 500 = 1
   \<and> lampIntensity defaultConfig (Some 0) 3000 < lampIntensity defaultConfig (Some 0) 2000
   \<and> lampIntensity defaultConfig (Some 0) 6000 \<le> 0.001
   \<and> snapOff (lampIntensity defaultConfig (Some 0) 6000) = (False, 0)
   \<and> peakFadeMs negativeFadeConfig \<noteq> 0 \<and> peakHoldMs negativeFadeConfig < 1500 - 0
   \<and> lampIntensity negativeFadeConfig (Some 0) 1500 = 1 - min 1 ((1500 - 0 - 1000) / (- 5000))
   \<and> 500 - 0 \<le> peakHoldMs negativeFadeConfig
   \<and> lampIntensity negativeFadeConfig (Some 0) 500 = 1"
  using peak_intensity [of defaultConfig 3000 0 "Some 0" 500 500]
    peak_intensity [of defaultConfig 6000 0 "Some 0" 2000 3000]
    peak_intensity [of defaultConfig 6000 0 "Some 0" 6000 6000]
    peak_intensity [of negativeFadeConfig 1500 0 "Some 0" 500 500]
    peak_intensity [of negativeFadeConfig 500 0 "Some 0" 500 500]
  by (simp add: defaultConfig_def negativeFadeConfig_def spec_intensity_def lampIntensity_def)

subsection \<open>One frame\<close>

text \<open>What one frame writes to each ref and emits, read off \<^const>\<open>animate\<close>.\<close>

lemma animate_needle:
  "needleRotation (snd (animate cfg st t w))
     = level (fst (process (ballistics st) (normalizedLevelOf cfg st w) (deltaTimeOf st t))) * 50 - 25"
  by (simp add: animate_def Let_def case_prod_beta process_snd)

lemma animate_ballistics:
  "ballistics (fst (animate cfg st t w))
     = fst (process (ballistics st) (normalizedLevelOf cfg st w) (deltaTimeOf st t))"
  by (simp add: animate_def Let_def case_prod_beta)

lemma animate_lastClip:
  "lastClipTimeMs (fst (animate cfg st t w))
     = (if clipThresholdDeg cfg \<le> needleRotation (snd (animate cfg st t w)) then Some t
        else lastClipTimeMs st)"
  by (simp add: animate_def Let_def case_prod_beta)

lemma animate_lastTime: "lastTime (fst (animate cfg st t w)) = t"
  by (simp add: animate_def Let_def case_prod_beta)

lemma animate_lamp:
  "(peakLampActive (snd (animate cfg st t w)), peakLampIntensity (snd (animate cfg st t w)))
     = snapOff (lampIntensity cfg (lastClipTimeMs (fst (animate cfg st t w))) t)"
  by (simp add: animate_def Let_def case_prod_beta)

lemma deltaTimeOf_nonneg: "lastTime st \<le> t \<Longrightarrow> 0 \<le> deltaTimeOf st t"
  by (simp add: deltaTimeOf_def)

lemma lampIntensity_range:
  assumes "0 < peakFadeMs cfg"
  shows "0 \<le> lampIntensity cfg lastClip now \<and> lampIntensity cfg lastClip now \<le> 1"
proof (cases lastClip)
  case None
  then show ?thesis by (simp add: lampIntensity_def)
next
  case (Some clipTime)
  show ?thesis
  proof (cases "now - clipTime \<le> peakHoldMs cfg")
    case True
    with Some show ?thesis by (simp add: lampIntensity_def)
  next
    case False
    then have "0 \<le> (now - clipTime - peakHoldMs cfg) / peakFadeMs cfg"
      using assms by simp
    with Some False show ?thesis by (simp add: lampIntensity_def Let_def)
  qed
qed

lemma snapOff_range: "0 \<le> i \<Longrightarrow> i \<le> 1 \<Longrightarrow> 0 \<le> snd (snapOff i) \<and> snd (snapOff i) \<le> 1"
  by (simp add: snapOff_def)

lemma animate_intensity:
  "peakLampIntensity (snd (animate cfg st t w))
     = snd (snapOff (lampIntensity cfg (lastClipTimeMs (fst (animate cfg st t w))) t))"
  using animate_lamp [of cfg st t w] by (metis snd_conv)

lemma animate_active:
  "peakLampActive (snd (animate cfg st t w))
     = fst (snapOff (lampIntensity cfg (lastClipTimeMs (fst (animate cfg st t w))) t))"
  using animate_lamp [of cfg st t w] by (metis fst_conv)

lemma animate_range:
  assumes "0 \<le> level (ballistics st)" "level (ballistics st) \<le> 1" "lastTime st \<le> t"
    and "0 < peakFadeMs cfg"
  shows "-25 \<le> needleRotation (snd (animate cfg st t w))"
    and "needleRotation (snd (animate cfg st t w)) \<le> 25"
    and "0 \<le> peakLampIntensity (snd (animate cfg st t w))"
    and "peakLampIntensity (snd (animate cfg st t w)) \<le> 1"
    and "0 \<le> level (ballistics (fst (animate cfg st t w)))"
    and "level (ballistics (fst (animate cfg st t w))) \<le> 1"
proof -
  let ?b' = "fst (process (ballistics st) (normalizedLevelOf cfg st w) (deltaTimeOf st t))"
  have lv: "0 \<le> level ?b' \<and> level ?b' \<le> 1"
    using assms(1-3) normalizedLevelOf_range [of cfg st w] deltaTimeOf_nonneg [of st t]
    by (intro process_range) simp_all
  then show "-25 \<le> needleRotation (snd (animate cfg st t w))"
    and "needleRotation (snd (animate cfg st t w)) \<le> 25"
    by (simp_all add: animate_needle)
  show "0 \<le> level (ballistics (fst (animate cfg st t w)))"
    and "level (ballistics (fst (animate cfg st t w))) \<le> 1"
    using lv by (simp_all add: animate_ballistics)
  show "0 \<le> peakLampIntensity (snd (animate cfg st t w))"
    and "peakLampIntensity (snd (animate cfg st t w)) \<le> 1"
    using lampIntensity_range [OF assms(4)] by (simp_all add: animate_intensity snapOff_range)
qed

text \<open>The example buffers, states and configurations, evaluated.\<close>

lemma levelEstimate_loudBuffer: "levelEstimate loudBuffer = Some 0"
  by (simp add: levelEstimate_def rms_of_def sumOfSquares_loop_sum_list loudBuffer_def
      sum_list_replicate)

lemma levelEstimate_silentBuffer: "levelEstimate silentBuffer = Some (-100)"
  by (simp add: levelEstimate_def rms_of_def sumOfSquares_loop_sum_list silentBuffer_def
      sum_list_replicate log10_floor)

lemma normalizedLevelOf_full_scale:
  assumes "levelEstimate w = Some 0" "referenceLevel cfg = -20"
  shows "normalizedLevelOf cfg st w = 1"
  using assms
  by (simp add: normalizedLevelOf_def vuValueOf_def dbFSOf_def monoCorrection_def angleOf_def
      toAngle_def)

lemma normalizedLevelOf_silence:
  assumes "levelEstimate w = Some (-100)" "referenceLevel cfg = -20"
  shows "normalizedLevelOf cfg st w = 0"
  using assms
  by (simp add: normalizedLevelOf_def vuValueOf_def dbFSOf_def monoCorrection_def angleOf_def
      toAngle_def)

lemma needle_full_scale:
  assumes "referenceLevel cfg = -20" "level (ballistics st) = 1"
  shows "needleRotation (snd (animate cfg st t loudBuffer)) = 25"
  using assms
  by (simp add: animate_needle process_level
      normalizedLevelOf_full_scale [OF levelEstimate_loudBuffer])

lemma needle_silence:
  assumes "referenceLevel cfg = -20" "level (ballistics st) = 0"
  shows "needleRotation (snd (animate cfg st t silentBuffer)) = -25"
  using assms
  by (simp add: animate_needle process_level
      normalizedLevelOf_silence [OF levelEstimate_silentBuffer])

lemma vuValue_minus20_from_silence:
  "vuValueOf (defaultConfig\<lparr>channel := Left, referenceLevel := -80\<rparr>) initialState silentBuffer
     = Some (-20)"
  by (simp add: vuValueOf_def dbFSOf_def levelEstimate_silentBuffer monoCorrection_def
      defaultConfig_def)

lemma restartedState_simps:
  "level (ballistics restartedState) = 0" "lastTime restartedState = 1484"
  "lastClipTimeMs restartedState = Some 0"
  by (simp_all add: restartedState_def new_VUBallistics_def)

lemma fadingState_simps:
  "level (ballistics fadingState) = 1" "lastTime fadingState = 2984"
  "lastClipTimeMs fadingState = Some 0"
  by (simp_all add: fadingState_def)

lemma config_simps:
  "referenceLevel defaultConfig = -20" "referenceLevel negativeFadeConfig = -20"
  "referenceLevel negativeHoldConfig = -20"
  "clipThresholdDeg defaultConfig = 23" "clipThresholdDeg negativeFadeConfig = 23"
  "clipThresholdDeg negativeHoldConfig = 23"
  "peakHoldMs defaultConfig = 1000" "peakHoldMs negativeFadeConfig = 1000"
  "peakHoldMs negativeHoldConfig = -100"
  "peakFadeMs defaultConfig = 5000" "peakFadeMs negativeFadeConfig = -5000"
  "peakFadeMs negativeHoldConfig = 5000"
  by (simp_all add: defaultConfig_def negativeFadeConfig_def negativeHoldConfig_def)

lemma snapOff_lit: "0.001 < i \<Longrightarrow> snapOff i = (True, i)"
  by (simp add: snapOff_def)

text \<open>
  The needle and the level need no condition on the lamp options; the emitted intensity is
  never negative, and at most 1 for a positive fade time.
\<close>

lemma emitted_intensity_nonneg: "0 \<le> peakLampIntensity (snd (animate cfg st t w))"
  by (simp add: animate_intensity snapOff_def)

lemma animate_needle_range:
  assumes "0 \<le> level (ballistics st)" "level (ballistics st) \<le> 1" "lastTime st \<le> t"
  shows "-25 \<le> needleRotation (snd (animate cfg st t w))"
    and "needleRotation (snd (animate cfg st t w)) \<le> 25"
    and "0 \<le> level (ballistics (fst (animate cfg st t w)))"
    and "level (ballistics (fst (animate cfg st t w))) \<le> 1"
proof -
  let ?b' = "fst (process (ballistics st) (normalizedLevelOf cfg st w) (deltaTimeOf st t))"
  have lv: "0 \<le> level ?b' \<and> level ?b' \<le> 1"
    using assms normalizedLevelOf_range [of cfg st w] deltaTimeOf_nonneg [of st t]
    by (intro process_range) simp_all
  then show "-25 \<le> needleRotation (snd (animate cfg st t w))"
    and "needleRotation (snd (animate cfg st t w)) \<le> 25"
    by (simp_all add: animate_needle)
  show "0 \<le> level (ballistics (fst (animate cfg st t w)))"
    and "level (ballistics (fst (animate cfg st t w))) \<le> 1"
    using lv by (simp_all add: animate_ballistics)
qed

lemma emitted_intensity_le_one:
  "0 < peakFadeMs cfg \<Longrightarrow> peakLampIntensity (snd (animate cfg st t w)) \<le> 1"
  using lampIntensity_range [of cfg "lastClipTimeMs (fst (animate cfg st t w))" t]
  by (simp add: animate_intensity snapOff_range)

text \<open>
  C9, as stated, fails for a negative fade time: a frame from a level in \<open>[0, 1]\<close> at a later
  time, 1500 ms after a clip, emits intensity 1.1 with \<open>peakFadeMs = -5000\<close>.
\<close>

theorem intensity_above_one_negative_fade:
  "0 \<le> level (ballistics restartedState) \<and> level (ballistics restartedState) \<le> 1
   \<and> lastTime restartedState \<le> 1500
   \<and> peakLampIntensity (snd (animate negativeFadeConfig restartedState 1500 silentBuffer)) = 11 / 10
   \<and> \<not> peakLampIntensity (snd (animate negativeFadeConfig restartedState 1500 silentBuffer)) \<le> 1"
proof -
  have "lastClipTimeMs (fst (animate negativeFadeConfig restartedState 1500 silentBuffer)) = Some 0"
    by (simp add: animate_lastClip needle_silence config_simps restartedState_simps)
  moreover have "lampIntensity negativeFadeConfig (Some 0) 1500 = 11 / 10"
    by (simp add: lampIntensity_def config_simps)
  ultimately have "peakLampIntensity (snd (animate negativeFadeConfig restartedState 1500 silentBuffer))
      = 11 / 10"
    by (simp add: animate_intensity snapOff_lit)
  then show ?thesis by (simp add: restartedState_simps)
qed

text \<open>
  C9, as the code has it. A frame that starts with the ballistics level in \<open>[0, 1]\<close> at a
  time not before the previous frame emits a needle angle in \<open>[-25, 25]\<close> and leaves the
  level in \<open>[0, 1]\<close>. The emitted intensity is never negative, and with a positive fade
  time it is at most 1. In particular \<^const>\<open>process\<close> keeps a level in \<open>[0, 1]\<close> there for
  an input in \<open>[0, 1]\<close> and a non-negative \<open>deltaTime\<close>, so that
  \<open>smoothedLevel * 50 - 25\<close> stays on the dial.
\<close>

theorem outputs_in_range:
  "(0 \<le> level (ballistics st) \<and> level (ballistics st) \<le> 1 \<and> lastTime st \<le> currentTime \<longrightarrow>
      -25 \<le> needleRotation (snd (animate cfg st currentTime dataArray))
      \<and> needleRotation (snd (animate cfg st currentTime dataArray)) \<le> 25
      \<and> 0 \<le> level (ballistics (fst (animate cfg st currentTime dataArray)))
      \<and> level (ballistics (fst (animate cfg st currentTime dataArray))) \<le> 1)
   \<and> 0 \<le> peakLampIntensity (snd (animate cfg st currentTime dataArray))
   \<and> (0 < peakFadeMs cfg \<longrightarrow>
      peakLampIntensity (snd (animate cfg st currentTime dataArray)) \<le> 1)
   \<and> (0 \<le> level b \<and> level b \<le> 1 \<and> 0 \<le> inputLevel \<and> inputLevel \<le> 1 \<and> 0 \<le> deltaTime \<longrightarrow>
      0 \<le> snd (process b inputLevel deltaTime) \<and> snd (process b inputLevel deltaTime) \<le> 1
      \<and> level (fst (process b inputLevel deltaTime)) = snd (process b inputLevel deltaTime)
      \<and> -25 \<le> snd (process b inputLevel deltaTime) * 50 - 25
      \<and> snd (process b inputLevel deltaTime) * 50 - 25 \<le> 25)"
  using animate_needle_range [of st currentTime cfg dataArray]
    emitted_intensity_nonneg [of cfg st currentTime dataArray]
    emitted_intensity_le_one [of cfg st currentTime dataArray]
    process_range [of b inputLevel deltaTime]
  by (simp add: process_snd)

lemma normalizedLevelOf_loud: "normalizedLevelOf defaultConfig fadingState [1] = 1"
  by (simp add: normalizedLevelOf_def vuValueOf_def dbFSOf_def levelEstimate_one
      monoCorrection_def defaultConfig_def fadingState_def angleOf_def toAngle_def)

lemma animate_fading_needle: "needleRotation (snd (animate defaultConfig fadingState 3000 [1])) = 25"
  by (simp add: animate_needle normalizedLevelOf_loud process_level) (simp add: fadingState_def)

theorem outputs_in_range_witness:
  "0 \<le> level (ballistics fadingState) \<and> level (ballistics fadingState) \<le> 1
   \<and> lastTime fadingState \<le> 3000 \<and> 0 < peakFadeMs defaultConfig
   \<and> needleRotation (snd (animate defaultConfig fadingState 3000 loudBuffer)) = 25
   \<and> 0 \<le> peakLampIntensity (snd (animate defaultConfig fadingState 3000 loudBuffer))
   \<and> peakLampIntensity (snd (animate defaultConfig fadingState 3000 loudBuffer)) \<le> 1
   \<and> 0 \<le> level (ballistics (fst (animate defaultConfig fadingState 3000 loudBuffer)))
   \<and> level (ballistics (fst (animate defaultConfig fadingState 3000 loudBuffer))) \<le> 1
   \<and> (0::real) \<le> 3 / 10 \<and> level \<lparr>level = 1 / 2\<rparr> = 1 / 2
   \<and> 0 \<le> snd (process \<lparr>level = 1 / 2\<rparr> 1 (3 / 10))
   \<and> snd (process \<lparr>level = 1 / 2\<rparr> 1 (3 / 10)) \<le> 1"
  using outputs_in_range [of fadingState 3000 defaultConfig loudBuffer "\<lparr>level = 1 / 2\<rparr>" 1 "3 / 10"]
  by (simp add: needle_full_scale config_simps fadingState_simps)

subsection \<open>First frame, clip detection and snap-off\<close>

lemma startEffect_fresh:
  "lastTime (startEffect cfg cc initialState) = 0"
  "ballistics (startEffect cfg cc initialState) = new_VUBallistics"
  "lastClipTimeMs (startEffect cfg cc initialState) = None"
  by (simp_all add: startEffect_def initialState_def Let_def)

text \<open>
  C7, as the code has it. On the first frame after the effect has started from the initial
  refs, \<open>deltaTime\<close> is 0 and the ballistics object is left as created: the level stays 0
  and the needle is emitted at -25 degrees, whatever the buffer holds.
\<close>

theorem first_frame:
  "deltaTimeOf (startEffect cfg channelCount initialState) currentTime = 0
   \<and> ballistics (fst (animate cfg (startEffect cfg channelCount initialState) currentTime dataArray))
       = new_VUBallistics
   \<and> level (ballistics
        (fst (animate cfg (startEffect cfg channelCount initialState) currentTime dataArray))) = 0
   \<and> needleRotation
        (snd (animate cfg (startEffect cfg channelCount initialState) currentTime dataArray)) = -25"
proof -
  let ?st = "startEffect cfg channelCount initialState"
  have dt: "deltaTimeOf ?st currentTime = 0"
    by (simp add: deltaTimeOf_def startEffect_fresh)
  have "process (ballistics ?st) (normalizedLevelOf cfg ?st dataArray) 0 = (new_VUBallistics, 0)"
    by (simp add: process_def attackCoeff_def releaseCoeff_def startEffect_fresh new_VUBallistics_def)
  then show ?thesis
    by (simp add: dt animate_ballistics animate_needle new_VUBallistics_def)
qed

text \<open>
  C7, as stated, fails: on the first frame of a default meter on a full-scale buffer the input
  level is 1 and the level after the frame is 0, so the filter is not seeded from the input.
\<close>

theorem not_seeded_from_input:
  "normalizedLevelOf defaultConfig (startEffect defaultConfig 2 initialState) [1] = 1
   \<and> level (ballistics
        (fst (animate defaultConfig (startEffect defaultConfig 2 initialState) 16 [1]))) = 0
   \<and> level (ballistics
        (fst (animate defaultConfig (startEffect defaultConfig 2 initialState) 16 [1])))
      \<noteq> normalizedLevelOf defaultConfig (startEffect defaultConfig 2 initialState) [1]"
proof -
  let ?st = "startEffect defaultConfig 2 initialState"
  have n: "normalizedLevelOf defaultConfig ?st [1] = 1"
    by (simp add: normalizedLevelOf_def vuValueOf_def dbFSOf_def levelEstimate_one
        monoCorrection_def defaultConfig_def startEffect_def initialState_def angleOf_def
        toAngle_def)
  have dt: "deltaTimeOf ?st 16 = 0"
    by (simp add: deltaTimeOf_def startEffect_fresh)
  have "level (ballistics (fst (animate defaultConfig ?st 16 [1]))) = 0"
    by (simp add: animate_ballistics dt process_level startEffect_fresh new_VUBallistics_def)
  with n show ?thesis by simp
qed

text \<open>
  C8, as stated, fails for a negative hold time: with \<open>peakHoldMs = -100\<close> a clip during a
  fade (intensity 0.38 without it) stamps the clip time, but the intensity of that frame is
  0.98, not 1.
\<close>

theorem retrigger_below_one_negative_hold:
  "lastClipTimeMs fadingState = Some 0
   \<and> lampIntensity negativeHoldConfig (lastClipTimeMs fadingState) 3000 = 19 / 50
   \<and> clipThresholdDeg negativeHoldConfig
        \<le> needleRotation (snd (animate negativeHoldConfig fadingState 3000 loudBuffer))
   \<and> lastClipTimeMs (fst (animate negativeHoldConfig fadingState 3000 loudBuffer)) = Some 3000
   \<and> peakLampIntensity (snd (animate negativeHoldConfig fadingState 3000 loudBuffer)) = 49 / 50
   \<and> peakLampIntensity (snd (animate negativeHoldConfig fadingState 3000 loudBuffer)) \<noteq> 1"
proof -
  have n: "needleRotation (snd (animate negativeHoldConfig fadingState 3000 loudBuffer)) = 25"
    by (simp add: needle_full_scale config_simps fadingState_simps)
  then have c: "lastClipTimeMs (fst (animate negativeHoldConfig fadingState 3000 loudBuffer)) = Some 3000"
    by (simp add: animate_lastClip config_simps)
  have "lampIntensity negativeHoldConfig (Some 3000) 3000 = 49 / 50"
    by (simp add: lampIntensity_def config_simps)
  then have "peakLampIntensity (snd (animate negativeHoldConfig fadingState 3000 loudBuffer)) = 49 / 50"
    by (simp add: animate_intensity c snapOff_lit)
  moreover have "lampIntensity negativeHoldConfig (lastClipTimeMs fadingState) 3000 = 19 / 50"
    by (simp add: lampIntensity_def config_simps fadingState_simps)
  ultimately show ?thesis using n c by (simp add: config_simps fadingState_simps)
qed

text \<open>
  C8, as the code has it. On a frame whose emitted needle angle is at least the clip
  threshold the clip time becomes the frame's time, whatever it was before; on every other
  frame it is left as it was. With a non-negative hold time the intensity of a frame that
  crosses the threshold is 1 and the lamp is active, also when a fade was under way.
\<close>

theorem clip_retrigger:
  "lastClipTimeMs (fst (animate cfg st currentTime dataArray))
     = (if clipThresholdDeg cfg \<le> needleRotation (snd (animate cfg st currentTime dataArray))
        then Some currentTime else lastClipTimeMs st)
   \<and> (clipThresholdDeg cfg \<le> needleRotation (snd (animate cfg st currentTime dataArray)) \<longrightarrow>
      lastClipTimeMs (fst (animate cfg st currentTime dataArray)) = Some currentTime)
   \<and> (\<not> clipThresholdDeg cfg \<le> needleRotation (snd (animate cfg st currentTime dataArray)) \<longrightarrow>
      lastClipTimeMs (fst (animate cfg st currentTime dataArray)) = lastClipTimeMs st)
   \<and> (clipThresholdDeg cfg \<le> needleRotation (snd (animate cfg st currentTime dataArray))
      \<and> 0 \<le> peakHoldMs cfg \<longrightarrow>
      lampIntensity cfg (lastClipTimeMs (fst (animate cfg st currentTime dataArray))) currentTime = 1
      \<and> peakLampIntensity (snd (animate cfg st currentTime dataArray)) = 1
      \<and> peakLampActive (snd (animate cfg st currentTime dataArray)))"
proof -
  have "lampIntensity cfg (Some currentTime) currentTime = 1" if "0 \<le> peakHoldMs cfg"
    using that by (simp add: lampIntensity_def)
  then show ?thesis
    by (simp add: animate_lastClip animate_intensity animate_active snapOff_def)
qed

theorem clip_retrigger_witness:
  "lastClipTimeMs fadingState = Some 0
   \<and> lampIntensity defaultConfig (lastClipTimeMs fadingState) 3000 = 3 / 5
   \<and> clipThresholdDeg defaultConfig
        \<le> needleRotation (snd (animate defaultConfig fadingState 3000 loudBuffer))
   \<and> 0 \<le> peakHoldMs defaultConfig
   \<and> lastClipTimeMs (fst (animate defaultConfig fadingState 3000 loudBuffer)) = Some 3000
   \<and> peakLampIntensity (snd (animate defaultConfig fadingState 3000 loudBuffer)) = 1
   \<and> peakLampActive (snd (animate defaultConfig fadingState 3000 loudBuffer))
   \<and> \<not> clipThresholdDeg defaultConfig
        \<le> needleRotation (snd (animate defaultConfig restartedState 1500 silentBuffer))
   \<and> lastClipTimeMs (fst (animate defaultConfig restartedState 1500 silentBuffer)) = Some 0"
proof -
  have "lampIntensity defaultConfig (lastClipTimeMs fadingState) 3000 = 3 / 5"
    by (simp add: lampIntensity_def config_simps fadingState_simps)
  moreover have "needleRotation (snd (animate defaultConfig fadingState 3000 loudBuffer)) = 25"
    by (simp add: needle_full_scale config_simps fadingState_simps)
  moreover have "needleRotation (snd (animate defaultConfig restartedState 1500 silentBuffer)) = -25"
    by (simp add: needle_silence config_simps restartedState_simps)
  ultimately show ?thesis
    using clip_retrigger [of defaultConfig fadingState 3000 loudBuffer]
      clip_retrigger [of defaultConfig restartedState 1500 silentBuffer]
    by (simp add: config_simps fadingState_simps restartedState_simps)
qed

text \<open>
  C10. The emitted flag is true exactly when the computed intensity exceeds 0.001; when it
  is false the emitted intensity is 0, when it is true the emitted intensity is the computed
  one, and the emitted intensity is never in \<open>(0, 0.001]\<close>.
\<close>

theorem lamp_consistent:
  "peakLampActive (snd (animate cfg st currentTime dataArray))
     = (0.001 < lampIntensity cfg (lastClipTimeMs (fst (animate cfg st currentTime dataArray)))
                  currentTime)
   \<and> (\<not> peakLampActive (snd (animate cfg st currentTime dataArray)) \<longrightarrow>
        peakLampIntensity (snd (animate cfg st currentTime dataArray)) = 0)
   \<and> (peakLampActive (snd (animate cfg st currentTime dataArray)) \<longrightarrow>
        peakLampIntensity (snd (animate cfg st currentTime dataArray))
          = lampIntensity cfg (lastClipTimeMs (fst (animate cfg st currentTime dataArray)))
              currentTime)
   \<and> \<not> (0 < peakLampIntensity (snd (animate cfg st currentTime dataArray))
         \<and> peakLampIntensity (snd (animate cfg st currentTime dataArray)) \<le> 0.001)"
  by (simp add: animate_intensity animate_active snapOff_def)

lemma animate_quiet_needle:
  "needleRotation (snd (animate defaultConfig (startEffect defaultConfig 2 initialState) 16 [0])) = -25"
  by (simp add: animate_needle process_level startEffect_fresh new_VUBallistics_def
      deltaTimeOf_def)

lemma animate_quiet_lastClip:
  "lastClipTimeMs (fst (animate defaultConfig (startEffect defaultConfig 2 initialState) 16 [0])) = None"
  by (simp add: animate_lastClip animate_quiet_needle startEffect_fresh)
    (simp add: defaultConfig_def)

lemma animate_fading_lastClip:
  "lastClipTimeMs (fst (animate defaultConfig fadingState 3000 [1])) = Some 3000"
  by (simp add: animate_lastClip animate_fading_needle) (simp add: defaultConfig_def)

lemma lampIntensity_at_clip: "lampIntensity defaultConfig (Some 3000) 3000 = 1"
  by (simp add: lampIntensity_def defaultConfig_def)

theorem lamp_consistent_witness:
  "\<not> peakLampActive (snd (animate defaultConfig (startEffect defaultConfig 2 initialState) 16 [0]))
   \<and> peakLampIntensity (snd (animate defaultConfig (startEffect defaultConfig 2 initialState) 16 [0])) = 0
   \<and> peakLampActive (snd (animate defaultConfig fadingState 3000 [1]))
   \<and> peakLampIntensity (snd (animate defaultConfig fadingState 3000 [1])) = 1"
  using lamp_consistent [of defaultConfig "startEffect defaultConfig 2 initialState" 16 "[0]"]
    lamp_consistent [of defaultConfig fadingState 3000 "[1]"]
  by (simp add: animate_quiet_lastClip animate_fading_lastClip lampIntensity_at_clip
      lampIntensity_none)

text \<open>
  Over a run of frames with non-decreasing times and a positive fade time the hypotheses of
  the frame property hold at every frame, so every emitted value is in range.
\<close>

lemma run_in_range:
  assumes "sorted (map fst frames)" "\<forall>f\<in>set frames. lastTime st \<le> fst f"
    and "0 \<le> level (ballistics st)" "level (ballistics st) \<le> 1" "0 < peakFadeMs cfg"
  shows "\<forall>e\<in>set (snd (run cfg st frames)).
           -25 \<le> needleRotation e \<and> needleRotation e \<le> 25
           \<and> 0 \<le> peakLampIntensity e \<and> peakLampIntensity e \<le> 1"
  using assms
proof (induction frames arbitrary: st)
  case Nil
  then show ?case by simp
next
  case (Cons f frames)
  obtain t w where f: "f = (t, w)" by (cases f)
  let ?st' = "fst (animate cfg st t w)"
  have le: "lastTime st \<le> t" using Cons.prems(2) f by simp
  note r = animate_range [OF Cons.prems(3) Cons.prems(4) le Cons.prems(5), of w]
  have "\<forall>g\<in>set frames. lastTime ?st' \<le> fst g"
    using Cons.prems(1) f by (simp add: animate_lastTime)
  moreover have "sorted (map fst frames)" using Cons.prems(1) by simp
  ultimately have IH: "\<forall>e\<in>set (snd (run cfg ?st' frames)).
           -25 \<le> needleRotation e \<and> needleRotation e \<le> 25
           \<and> 0 \<le> peakLampIntensity e \<and> peakLampIntensity e \<le> 1"
    using Cons.IH [of ?st'] r(5,6) Cons.prems(5) by blast
  show ?case
    using IH r(1-4) by (simp add: f case_prod_beta Let_def)
qed

lemma run_from_start_in_range:
  assumes "sorted (map fst frames)" "\<forall>f\<in>set frames. 0 \<le> fst f" "0 < peakFadeMs cfg"
  shows "\<forall>e\<in>set (snd (run cfg (startEffect cfg cc initialState) frames)).
           -25 \<le> needleRotation e \<and> needleRotation e \<le> 25
           \<and> 0 \<le> peakLampIntensity e \<and> peakLampIntensity e \<le> 1"
  using assms by (intro run_in_range) (simp_all add: startEffect_fresh new_VUBallistics_def)

end
